theory Spec2Isabelle
  imports Main "HOL-Library.List_Lexorder"
begin

section \<open>Python strings\<close>

text \<open>
  The functions of \<^verbatim>\<open>str\<close> that the two modules call, on \<^typ>\<open>string\<close>:
  \<^verbatim>\<open>s.startswith(p)\<close>, \<^verbatim>\<open>sub in s\<close>, \<^verbatim>\<open>s.replace(old, new)\<close>, \<^verbatim>\<open>s.strip()\<close>,
  \<^verbatim>\<open>s.split(sep)\<close> for a one-character separator, and \<^verbatim>\<open>str(n)\<close>, \<^verbatim>\<open>int(s)\<close> for
  naturals in decimal.
\<close>

fun startswith :: "string \<Rightarrow> string \<Rightarrow> bool" where
  "startswith [] s = True"
| "startswith (p # ps) [] = False"
| "startswith (p # ps) (c # cs) = (p = c \<and> startswith ps cs)"

text \<open>\<open>contains sub s\<close> is Python's \<^verbatim>\<open>sub in s\<close>: \<open>sub\<close> occurs in \<open>s\<close> as a contiguous block.\<close>

fun contains :: "string \<Rightarrow> string \<Rightarrow> bool" where
  "contains sub [] = (sub = [])"
| "contains sub (c # cs) = (startswith sub (c # cs) \<or> contains sub cs)"

text \<open>
  \<^verbatim>\<open>s.replace(old, new)\<close> scans from the left and replaces every occurrence that does not
  overlap an earlier one. With an empty \<open>old\<close> Python puts \<open>new\<close> before every character
  and at the end.
\<close>

function str_replace :: "string \<Rightarrow> string \<Rightarrow> string \<Rightarrow> string" where
  "str_replace old new [] = (if old = [] then new else [])"
| "str_replace old new (c # cs) =
     (if old = [] then new @ c # str_replace old new cs
      else if startswith old (c # cs)
        then new @ str_replace old new (drop (length old) (c # cs))
        else c # str_replace old new cs)"
  by pat_completeness auto
termination
  by (relation "measure (\<lambda>(old, new, s). length s)") (auto simp: Suc_le_eq)

definition isspace :: "char \<Rightarrow> bool" where
  "isspace c = (of_char c \<in> {9, 10, 11, 12, 13, 28, 29, 30, 31, 32, 133, 160 :: nat})"

definition strip :: "string \<Rightarrow> string" where
  "strip s = rev (dropWhile isspace (rev (dropWhile isspace s)))"

fun split_on :: "char \<Rightarrow> string \<Rightarrow> string list" where
  "split_on sep [] = [[]]"
| "split_on sep (c # cs) =
     (case split_on sep cs of
        [] \<Rightarrow> (if c = sep then [[], []] else [[c]])
      | w # ws \<Rightarrow> (if c = sep then [] # w # ws else (c # w) # ws))"

definition is_digit :: "char \<Rightarrow> bool" where
  "is_digit c = (c \<in> set ''0123456789'')"

definition digit_val :: "char \<Rightarrow> nat" where
  "digit_val c = of_char c - 48"

definition digit_char :: "nat \<Rightarrow> char" where
  "digit_char d = char_of (48 + d)"

text \<open>\<^verbatim>\<open>int(s)\<close> for a string of decimal digits.\<close>

definition int_of_digits :: "string \<Rightarrow> nat" where
  "int_of_digits s = foldl (\<lambda>n c. 10 * n + digit_val c) 0 s"

text \<open>\<^verbatim>\<open>str(n)\<close> for a natural number.\<close>

fun str_of_nat :: "nat \<Rightarrow> string" where
  "str_of_nat n = (if n < 10 then [digit_char n] else str_of_nat (n div 10) @ [digit_char (n mod 10)])"

declare str_of_nat.simps [simp del]

fun join_with :: "string \<Rightarrow> string list \<Rightarrow> string" where
  "join_with sep [] = []"
| "join_with sep [w] = w"
| "join_with sep (w # v # ws) = w @ sep @ join_with sep (v # ws)"

section \<open>Paths, JSON values, files and errors\<close>

text \<open>
  A \<^verbatim>\<open>pathlib.Path\<close> on POSIX: whether it is absolute, and its components.
  \<open>parent\<close>, \<open>name_of\<close> (which is \<^verbatim>\<open>Path(p.name)\<close>) and \<open>joinpath\<close> (the operator
  \<^verbatim>\<open>/\<close>) are the three operations the replay logic uses; \<open>path_of_str\<close> and
  \<open>str_of_path\<close> are \<^verbatim>\<open>Path(s)\<close> and \<^verbatim>\<open>str(p)\<close>, which drop empty components and
  single dots (a root written with exactly two slashes is not told apart from one slash).
\<close>

datatype path = Path (is_absolute: bool) (parts: "string list")

definition parent :: "path \<Rightarrow> path" where
  "parent p = Path (is_absolute p) (butlast (parts p))"

definition name_of :: "path \<Rightarrow> path" where
  "name_of p = Path False (if parts p = [] then [] else [last (parts p)])"

definition joinpath :: "path \<Rightarrow> path \<Rightarrow> path" where
  "joinpath p q = (if is_absolute q then q else Path (is_absolute p) (parts p @ parts q))"

definition path_of_str :: "string \<Rightarrow> path" where
  "path_of_str s =
     Path (startswith ''/'' s) (filter (\<lambda>w. w \<noteq> [] \<and> w \<noteq> ''.'') (split_on (CHR ''/'') s))"

definition str_of_path :: "path \<Rightarrow> string" where
  "str_of_path p =
     (if is_absolute p then ''/'' @ join_with ''/'' (parts p)
      else if parts p = [] then ''.'' else join_with ''/'' (parts p))"

text \<open>
  The values of a context and of the files the commands read and write are JSON values; a
  Python \<^verbatim>\<open>dict\<close> with string keys is a map.
\<close>

datatype json =
    JNull | JBool bool | JNum int | JStr string | JArr "json list"
  | JObj "string \<Rightarrow> json option"

type_synonym dict = "string \<Rightarrow> json option"

text \<open>
  The Python values that are passed where the type of the argument decides what happens:
  \<^verbatim>\<open>None\<close>, a \<^verbatim>\<open>bool\<close>, a \<^verbatim>\<open>str\<close>, a \<^verbatim>\<open>pathlib.Path\<close> and a \<^verbatim>\<open>dict\<close>.
\<close>

datatype pyval = PNone | PBool bool | PStr string | PPath path | PDict dict

text \<open>
  What is at a path of the file system: a directory with the names of its entries, a file
  holding a JSON document, or a file that is not JSON.
\<close>

datatype node = Dir "string list" | Json json | Malformed

text \<open>
  The exceptions: the four of \<^verbatim>\<open>cruft.exceptions\<close> that the code raises, the built-in ones
  it raises or catches, and \<open>Foreign\<close> for an exception of a library that the code lets
  through.
\<close>

datatype error =
    InvalidCookiecutterRepository string string
  | InvalidCookiecutterReplay path string
  | UnableToFindCookiecutterTemplate path
  | CruftError string
  | TypeError string
  | ValueError string
  | OSError string
  | AssertionError string
  | Foreign string

section \<open>Versions\<close>

text \<open>
  Modelled from the spec: \<^verbatim>\<open>packaging.version\<close>, which the module imports and which is
  not under the repository's sources: the version parser \<^verbatim>\<open>version.parse\<close>, the order \<^verbatim>\<open>>\<close> on its
  results and \<^verbatim>\<open>str\<close> of a version. The spec's data model calls the parse "best-effort"
  with \<open>0.0.0\<close> the sentinel for an unparseable name, so an unparseable string is a value
  (\<open>None\<close>) that never exceeds a version, which is how the library's legacy versions
  compare. The code only ever parses strings of digits and dots (see \<open>strip_non_numeric\<close>);
  such a string is a version exactly when it is dot-separated non-empty digit groups, its
  release is the groups read as integers, versions compare by their releases without
  trailing zeros, as tuples, and print as the release joined by dots.
\<close>

datatype version = Version (release: "nat list")

definition parse_version :: "string \<Rightarrow> version option" where
  "parse_version s =
     (let groups = split_on (CHR ''.'') s in
      if list_all (\<lambda>g. g \<noteq> [] \<and> list_all is_digit g) groups
      then Some (Version (map int_of_digits groups))
      else None)"

definition cmpkey :: "version \<Rightarrow> nat list" where
  "cmpkey v = rev (dropWhile (\<lambda>x. x = 0) (rev (release v)))"

definition version_gt :: "version \<Rightarrow> version \<Rightarrow> bool" where
  "version_gt a b = (cmpkey b < cmpkey a)"

definition str_of_version :: "version \<Rightarrow> string" where
  "str_of_version v = join_with ''.'' (map str_of_nat (release v))"

section \<open>Checkout resolution (\<^verbatim>\<open>get_cookiecutter_repo\<close>)\<close>

definition LATEST :: string where
  "LATEST = '':latest:''"

definition BRANCH :: string where
  "BRANCH = ''branch:''"

text \<open>\<^verbatim>\<open>re.sub(r"[^0-9.]", "", name)\<close>\<close>

definition strip_non_numeric :: "string \<Rightarrow> string" where
  "strip_non_numeric name = filter (\<lambda>c. is_digit c \<or> c = CHR ''.'') name"

text \<open>
  Lines 77 to 81: the loop over the tag names that keeps the greatest parsed version,
  starting from \<^verbatim>\<open>version.parse("0.0.0")\<close>; a tag replaces the bound only when it is
  strictly greater.
\<close>

definition latest_step :: "version \<Rightarrow> string \<Rightarrow> version" where
  "latest_step latest name =
     (case parse_version (strip_non_numeric name) of
        None \<Rightarrow> latest
      | Some ver \<Rightarrow> if version_gt ver latest then ver else latest)"

definition latest_version :: "string list \<Rightarrow> version" where
  "latest_version names = foldl latest_step (Version [0, 0, 0]) names"

text \<open>
  Lines 71 to 88, on the names of the repository's tag references in the order
  \<^verbatim>\<open>repo.refs\<close> lists them.
\<close>

definition resolve_latest :: "string list \<Rightarrow> error + string" where
  "resolve_latest names =
     (if names = [] then Inr ''HEAD''
      else
        let vers = str_of_version (latest_version names) in
        if ''0.0.0'' = vers then Inr ''HEAD''
        else
          (case filter (contains vers) names of
             [] \<Rightarrow> Inl (AssertionError (''No tag found for version: '' @ vers))
           | r # rs \<Rightarrow> Inr r))"

text \<open>
  Which arm of the \<^verbatim>\<open>if checkout in LATEST: ... elif BRANCH in checkout: ...\<close> statement
  (lines 70 and 89) a checkout string takes. \<^verbatim>\<open>checkout in LATEST\<close> asks whether the
  checkout string occurs inside \<^verbatim>\<open>":latest:"\<close>.
\<close>

datatype policy = Latest | Branch string | Explicit string

definition checkout_policy :: "string \<Rightarrow> policy" where
  "checkout_policy checkout =
     (if contains checkout LATEST then Latest
      else if contains BRANCH checkout then Branch (str_replace BRANCH [] checkout)
      else Explicit checkout)"

text \<open>Lines 69 to 91: the reference that is checked out and recorded.\<close>

definition resolve_checkout :: "string \<Rightarrow> string list \<Rightarrow> error + string" where
  "resolve_checkout checkout names =
     (case checkout_policy checkout of
        Latest \<Rightarrow> resolve_latest names
      | Branch name \<Rightarrow> Inr name
      | Explicit ref \<Rightarrow> Inr ref)"

section \<open>The world outside the two modules\<close>

text \<open>
  A cloned repository as \<^verbatim>\<open>git.Repo\<close> shows it to the code: its references in the order
  \<^verbatim>\<open>repo.refs\<close> lists them, the commit \<^verbatim>\<open>repo.head.object.hexsha\<close>, and what
  \<^verbatim>\<open>repo.git.checkout(ref)\<close> does: \<open>Inl\<close> the \<^verbatim>\<open>stderr\<close> of a \<^verbatim>\<open>GitCommandError\<close>, or
  \<open>Inr\<close> the commit the head is at afterwards.
\<close>

datatype gitref = TagReference string | Head string | RemoteReference string

fun is_tag :: "gitref \<Rightarrow> bool" where
  "is_tag (TagReference n) = True"
| "is_tag r = False"

fun ref_name :: "gitref \<Rightarrow> string" where
  "ref_name (TagReference n) = n"
| "ref_name (Head n) = n"
| "ref_name (RemoteReference n) = n"

record repo =
  refs :: "gitref list"
  hexsha :: string
  git_checkout :: "string \<Rightarrow> string + string"

text \<open>The two entries of cookiecutter's user configuration that the code reads.\<close>

record config =
  replay_dir :: string
  default_context :: dict

text \<open>
  The file system and the collaborators, none of which is code of the two modules:
  \<^item> \<open>files\<close>: what is at each absolute path; \<open>cwd\<close>: the working directory;
  \<^item> \<open>tmp_dir\<close>: the directory that \<^verbatim>\<open>AltTemporaryDirectory\<close> yields;
  \<^item> \<open>urlparse\<close>: scheme, netloc and path of a URL;
  \<^item> \<open>clone_from\<close>: \<open>Inl\<close> the \<^verbatim>\<open>stderr\<close> of a \<^verbatim>\<open>GitCommandError\<close>, or the repository;
  \<^item> \<open>get_user_config\<close>, \<open>prompt_for_config\<close>: cookiecutter's functions, \<open>Inl\<close> the
    name of the exception they raise; the second works on the value under the context's
    only key \<^verbatim>\<open>"cookiecutter"\<close>;
  \<^item> \<open>prompted\<close>: the contexts that have been passed to \<^verbatim>\<open>prompt_for_config\<close> so far,
    the latest last;
  \<^item> \<open>generate_files\<close>: cookiecutter's renderer, \<open>Inl\<close> the text of the
    \<^verbatim>\<open>CookiecutterException\<close> it raises, or the project directory; it too is given the
    value under the context's only key.
\<close>

record world =
  files :: "path \<Rightarrow> node option"
  cwd :: path
  tmp_dir :: string
  urlparse :: "string \<Rightarrow> string \<times> string \<times> string"
  clone_from :: "string \<Rightarrow> path \<Rightarrow> string + repo"
  get_user_config :: "string option \<Rightarrow> bool \<Rightarrow> string + config"
  prompt_for_config :: "dict \<Rightarrow> bool \<Rightarrow> string + dict"
  prompted :: "dict list"
  generate_files :: "path \<Rightarrow> dict \<Rightarrow> bool \<Rightarrow> string \<Rightarrow> string + string"

definition absolute :: "world \<Rightarrow> path \<Rightarrow> path" where
  "absolute w p = joinpath (cwd w) p"

text \<open>
  \<open>files\<close> is keyed by absolute paths; the file system resolves a relative path against
  the working directory. \<open>node_at\<close> reads what is at a path and \<open>write_node\<close> puts
  a file there.
\<close>

definition node_at :: "world \<Rightarrow> path \<Rightarrow> node option" where
  "node_at w p = files w (absolute w p)"

definition write_node :: "world \<Rightarrow> path \<Rightarrow> node \<Rightarrow> world" where
  "write_node w p n = w\<lparr>files := (files w)(absolute w p \<mapsto> n)\<rparr>"

definition exists :: "world \<Rightarrow> path \<Rightarrow> bool" where
  "exists w p = (node_at w p \<noteq> None)"

definition is_dir :: "world \<Rightarrow> path \<Rightarrow> bool" where
  "is_dir w p = (case node_at w p of Some (Dir names) \<Rightarrow> True | _ \<Rightarrow> False)"

text \<open>
  \<^verbatim>\<open>dir.glob("*cookiecutter.*")\<close>: the entries of the directory whose name has
  \<^verbatim>\<open>cookiecutter.\<close> in it; nothing when \<open>dir\<close> is not a directory.
\<close>

definition glob_cookiecutter :: "world \<Rightarrow> path \<Rightarrow> string list" where
  "glob_cookiecutter w dir =
     (case node_at w dir of
        Some (Dir names) \<Rightarrow> filter (contains ''cookiecutter.'') names
      | _ \<Rightarrow> [])"

text \<open>
  Modelled from the spec: cookiecutter's replay storage (\<^verbatim>\<open>cookiecutter.replay.load\<close> and
  \<^verbatim>\<open>dump\<close>), by the spec's interface \<^verbatim>\<open>load(dir, name) -> context | error\<close> and
  \<^verbatim>\<open>save(dir, name, context) -> success | error\<close>. The name is a string
  (\<^verbatim>\<open>template_name: str\<close>); for a name of another type both functions raise
  \<^verbatim>\<open>TypeError\<close>, one of the two exceptions that the handlers at lines 146 and 185 are for.
  With a string name a context is stored as a JSON document at \<open>dir / name\<close>; loading fails
  with a \<^verbatim>\<open>ValueError\<close> on a file that is not JSON or has no \<^verbatim>\<open>"cookiecutter"\<close> entry.
  \<open>load_replay\<close> returns that entry, which is all the code reads of the loaded context; an
  entry that is not an object is not what saving writes, and is a \<^verbatim>\<open>TypeError\<close> here.
\<close>

definition load_replay :: "world \<Rightarrow> path \<Rightarrow> pyval \<Rightarrow> error + dict" where
  "load_replay w dir template_name =
     (case template_name of
        PStr fname \<Rightarrow>
          (case node_at w (joinpath dir (path_of_str fname)) of
             None \<Rightarrow> Inl (OSError ''No such file or directory'')
           | Some (Dir names) \<Rightarrow> Inl (OSError ''Is a directory'')
           | Some Malformed \<Rightarrow> Inl (ValueError ''Expecting value'')
           | Some (Json (JObj m)) \<Rightarrow>
               (case m ''cookiecutter'' of
                  None \<Rightarrow> Inl (ValueError ''Context is required to contain a cookiecutter key'')
                | Some (JObj r) \<Rightarrow> Inr r
                | Some v \<Rightarrow> Inl (TypeError ''cookiecutter entry is not an object''))
           | Some (Json v) \<Rightarrow>
               Inl (ValueError ''Context is required to contain a cookiecutter key''))
      | _ \<Rightarrow> Inl (TypeError ''Template name is required to be of type str''))"

definition save_replay :: "world \<Rightarrow> path \<Rightarrow> pyval \<Rightarrow> dict \<Rightarrow> error + world" where
  "save_replay w dir template_name context =
     (case template_name of
        PStr fname \<Rightarrow>
          Inr (write_node w (joinpath dir (path_of_str fname))
                 (Json (JObj [''cookiecutter'' \<mapsto> JObj context])))
      | _ \<Rightarrow> Inl (TypeError ''Template name is required to be of type str''))"

text \<open>
  Modelled from the spec: cookiecutter's \<^verbatim>\<open>generate_context\<close>, by step 6 of the spec's
  context assembly: the variables that the template declares in its context file, merged
  with the configured default context and then with the user variables, a later one
  replacing an earlier one of the same name. The result is the value under the context's
  only key \<^verbatim>\<open>"cookiecutter"\<close>.
\<close>

definition generate_context :: "world \<Rightarrow> path \<Rightarrow> dict \<Rightarrow> dict \<Rightarrow> error + dict" where
  "generate_context w context_file defaults extra =
     (case node_at w context_file of
        Some (Json (JObj declared)) \<Rightarrow> Inr (declared ++ defaults ++ extra)
      | _ \<Rightarrow> Inl (Foreign ''ContextDecodingException''))"

section \<open>\<^verbatim>\<open>cruft/_commands/utils/cookiecutter.py\<close>\<close>

definition resolve_template_url :: "world \<Rightarrow> string \<Rightarrow> string" where
  "resolve_template_url w url =
     (case urlparse w url of (scheme, netloc, upath) \<Rightarrow>
        if scheme = [] \<or> scheme = ''file'' then
          (let file_path = absolute w (joinpath (path_of_str netloc) (path_of_str upath)) in
           if exists w file_path then str_of_path file_path else url)
        else url)"

text \<open>
  The dictionary \<^verbatim>\<open>cruft_state\<close> with its keys \<^verbatim>\<open>"template"\<close> and \<^verbatim>\<open>"checkout"\<close>.
\<close>

record cruft_state =
  template_url :: string
  checkout_ref :: "string option"

definition tag_names :: "repo \<Rightarrow> string list" where
  "tag_names r = map ref_name (filter is_tag (refs r))"

definition get_cookiecutter_repo ::
  "world \<Rightarrow> cruft_state \<Rightarrow> path \<Rightarrow> error + repo \<times> cruft_state" where
  "get_cookiecutter_repo w state cookiecutter_template_dir =
     (let template_git_url = template_url state in
      case clone_from w template_git_url cookiecutter_template_dir of
        Inl stderr \<Rightarrow>
          Inl (InvalidCookiecutterRepository template_git_url
                 (''Failed to clone the repo. '' @ strip stderr))
      | Inr r \<Rightarrow>
          (case checkout_ref state of
             None \<Rightarrow> Inr (r, state)
           | Some checkout \<Rightarrow>
               (case resolve_checkout checkout (tag_names r) of
                  Inl e \<Rightarrow> Inl e
                | Inr ref \<Rightarrow>
                    (case git_checkout r ref of
                       Inl stderr \<Rightarrow>
                         Inl (InvalidCookiecutterRepository template_git_url
                                (''Failed to check out the reference '' @ ref @ ''. ''
                                 @ strip stderr))
                     | Inr sha \<Rightarrow>
                         Inr (r\<lparr>hexsha := sha\<rparr>, state\<lparr>checkout_ref := Some ref\<rparr>)))))"

definition validate_cookiecutter :: "world \<Rightarrow> path \<Rightarrow> error + unit" where
  "validate_cookiecutter w cookiecutter_template_dir =
     (if list_ex (\<lambda>n. is_dir w (joinpath cookiecutter_template_dir (Path False [n]))
                      \<and> contains ''{{'' n \<and> contains ''}}'' n)
           (glob_cookiecutter w cookiecutter_template_dir)
      then Inr ()
      else Inl (UnableToFindCookiecutterTemplate cookiecutter_template_dir))"

text \<open>
  Lines 131 to 142: where the replay file is. The result is \<^verbatim>\<open>replay_dir\<close>,
  \<^verbatim>\<open>replay_file\<close> and \<^verbatim>\<open>replay_path\<close> as they stand at line 143.
\<close>

definition locate_replay :: "world \<Rightarrow> config \<Rightarrow> path \<Rightarrow> error + path \<times> path \<times> path" where
  "locate_replay w config_dict replay_file =
     (if exists w replay_file
      then Inr (parent replay_file, name_of replay_file, replay_file)
      else
        (let replay_path = joinpath (path_of_str (replay_dir config_dict)) replay_file in
         if exists w replay_path
         then Inr (parent replay_path, name_of replay_path, replay_path)
         else Inl (InvalidCookiecutterReplay replay_path ''No replay file found.'')))"

text \<open>
  Lines 150 to 153: \<^verbatim>\<open>extra_context.update(replay)\<close> when the extra context is a
  dictionary, the replayed values alone otherwise. \<^verbatim>\<open>update\<close> stores every entry
  of its argument, over what the dictionary held.
\<close>

definition merge_replay :: "dict option \<Rightarrow> dict \<Rightarrow> dict" where
  "merge_replay extra_context replay =
     (case extra_context of
        Some extra \<Rightarrow> extra ++ replay
      | None \<Rightarrow> replay)"

text \<open>
  Lines 143 to 155: loading the replay file and merging it into the extra context. The
  name passed to \<^verbatim>\<open>load_replay\<close> is \<^verbatim>\<open>replay_file\<close>, which lines 135 and 140 have made
  a \<^verbatim>\<open>Path\<close>.
\<close>

definition load_and_merge_replay ::
  "world \<Rightarrow> path \<Rightarrow> path \<Rightarrow> path \<Rightarrow> dict option \<Rightarrow> error + dict" where
  "load_and_merge_replay w rdir rfile rpath extra_context =
     (if exists w rpath then
        (case load_replay w rdir (PPath rfile) of
           Inl (TypeError msg) \<Rightarrow>
             Inl (InvalidCookiecutterReplay (joinpath rdir rfile)
                    (''Failed to load the replay file. '' @ msg))
         | Inl (ValueError msg) \<Rightarrow>
             Inl (InvalidCookiecutterReplay (joinpath rdir rfile)
                    (''Failed to load the replay file. '' @ msg))
         | Inl e \<Rightarrow> Inl e
         | Inr replay \<Rightarrow> Inr (merge_replay extra_context replay))
      else Inl (InvalidCookiecutterReplay rpath ''No replay file found.''))"

text \<open>
  Lines 158 to 165: the entries whose key starts with an underscore
  (\<^verbatim>\<open>jinja2_env_vars\<close>) and the others (\<^verbatim>\<open>user_context\<close>). The loop runs only when the
  extra context is a non-empty dictionary.
\<close>

definition jinja2_env_vars :: "dict option \<Rightarrow> dict" where
  "jinja2_env_vars extra_context =
     (case extra_context of
        None \<Rightarrow> Map.empty
      | Some extra \<Rightarrow>
          if extra = Map.empty then Map.empty
          else (\<lambda>key. if startswith ''_'' key then extra key else None))"

definition user_context :: "dict option \<Rightarrow> dict" where
  "user_context extra_context =
     (case extra_context of
        None \<Rightarrow> Map.empty
      | Some extra \<Rightarrow>
          if extra = Map.empty then Map.empty
          else (\<lambda>key. if startswith ''_'' key then None else extra key))"

text \<open>
  Lines 166 to 190, from the extra context as it stands after the replay step and the
  place to save the replay to, if any. The result is the value of the returned context
  under its only key \<^verbatim>\<open>"cookiecutter"\<close>. The context that \<^verbatim>\<open>generate_context\<close> returns
  is the one passed to \<^verbatim>\<open>prompt_for_config\<close>, and is recorded in \<open>prompted\<close>.
\<close>

definition build_context ::
  "world \<Rightarrow> string \<Rightarrow> path \<Rightarrow> config \<Rightarrow> dict option \<Rightarrow> bool \<Rightarrow> (path \<times> path) option
     \<Rightarrow> (error + dict) \<times> world" where
  "build_context w template_git_url context_file config_dict extra_context no_input replay_at =
     (case generate_context w context_file (default_context config_dict)
             (user_context extra_context) of
        Inl e \<Rightarrow> (Inl e, w)
      | Inr context \<Rightarrow>
          (let w1 = w\<lparr>prompted := prompted w @ [context]\<rparr> in
           case prompt_for_config w context no_input of
             Inl exc \<Rightarrow> (Inl (Foreign exc), w1)
           | Inr answered \<Rightarrow>
               (let final = (answered(''_template'' \<mapsto> JStr template_git_url))
                              ++ jinja2_env_vars extra_context in
                case replay_at of
                  None \<Rightarrow> (Inr final, w1)
                | Some (rdir, rfile) \<Rightarrow>
                    (case save_replay w1 rdir (PPath rfile) final of
                       Inl (TypeError msg) \<Rightarrow>
                         (Inl (InvalidCookiecutterReplay rfile
                                 (''Failed to load the replay file. '' @ msg)), w1)
                     | Inl (ValueError msg) \<Rightarrow>
                         (Inl (InvalidCookiecutterReplay rfile
                                 (''Failed to load the replay file. '' @ msg)), w1)
                     | Inl e \<Rightarrow> (Inl e, w1)
                     | Inr w' \<Rightarrow> (Inr final, w')))))"

definition generate_cookiecutter_context ::
  "world \<Rightarrow> string \<Rightarrow> path \<Rightarrow> path option \<Rightarrow> bool \<Rightarrow> dict option \<Rightarrow> bool \<Rightarrow> path option
     \<Rightarrow> (error + dict) \<times> world" where
  "generate_cookiecutter_context w template_git_url cookiecutter_template_dir config_file
       default_config extra_context no_input replay_file =
     (case validate_cookiecutter w cookiecutter_template_dir of
        Inl e \<Rightarrow> (Inl e, w)
      | Inr u \<Rightarrow>
          (let context_file = joinpath cookiecutter_template_dir (Path False [''cookiecutter.json'']) in
           case get_user_config w (map_option str_of_path config_file) default_config of
             Inl exc \<Rightarrow> (Inl (Foreign exc), w)
           | Inr config_dict \<Rightarrow>
               (case replay_file of
                  None \<Rightarrow>
                    build_context w template_git_url context_file config_dict extra_context
                      no_input None
                | Some rf \<Rightarrow>
                    (case locate_replay w config_dict rf of
                       Inl e \<Rightarrow> (Inl e, w)
                     | Inr (rdir, rfile, rpath) \<Rightarrow>
                         (case load_and_merge_replay w rdir rfile rpath extra_context of
                            Inl e \<Rightarrow> (Inl e, w)
                          | Inr merged \<Rightarrow>
                              build_context w template_git_url context_file config_dict
                                (Some merged) no_input (Some (rdir, rfile)))))))"

text \<open>
  \<^verbatim>\<open>json.load\<close> of the extra-context file. The function is annotated to return a
  dictionary; a JSON document that is not an object is outside that type and is an error
  of the model.
\<close>

definition get_extra_context_from_file :: "world \<Rightarrow> path \<Rightarrow> error + dict" where
  "get_extra_context_from_file w extra_context_file =
     (if exists w extra_context_file then
        (case node_at w extra_context_file of
           Some (Json (JObj m)) \<Rightarrow> Inr m
         | Some (Json v) \<Rightarrow> Inl (TypeError ''extra context is not an object'')
         | Some Malformed \<Rightarrow> Inl (ValueError ''Expecting value'')
         | _ \<Rightarrow> Inl (OSError ''Is a directory''))
      else Inr Map.empty)"

section \<open>\<^verbatim>\<open>cruft/_commands/create.py\<close>\<close>

text \<open>
  Lines 46 and 47: with an extra-context file, what is loaded from it becomes the extra
  context.
\<close>

definition create_extra_context :: "world \<Rightarrow> dict option \<Rightarrow> path option \<Rightarrow> error + dict option" where
  "create_extra_context w extra_context extra_context_file =
     (case extra_context_file of
        None \<Rightarrow> Inr extra_context
      | Some f \<Rightarrow>
          (case get_extra_context_from_file w f of
             Inl e \<Rightarrow> Inl e
           | Inr loaded \<Rightarrow> Inr (Some loaded)))"

text \<open>
  The call at lines 48 to 57 passes its arguments by position. Python binds positional
  arguments to the parameters of \<^verbatim>\<open>generate_cookiecutter_context\<close> from the left; the
  function declares seven, the last five with defaults, and a call with more is a
  \<^verbatim>\<open>TypeError\<close> raised before the body runs. Arguments that are not of the annotated
  types are outside the model and a \<^verbatim>\<open>TypeError\<close> too.
\<close>

fun opt_path :: "pyval \<Rightarrow> path option option" where
  "opt_path PNone = Some None"
| "opt_path (PPath p) = Some (Some p)"
| "opt_path v = None"

fun opt_dict :: "pyval \<Rightarrow> dict option option" where
  "opt_dict PNone = Some None"
| "opt_dict (PDict d) = Some (Some d)"
| "opt_dict v = None"

fun of_opt_path :: "path option \<Rightarrow> pyval" where
  "of_opt_path None = PNone"
| "of_opt_path (Some p) = PPath p"

fun of_opt_dict :: "dict option \<Rightarrow> pyval" where
  "of_opt_dict None = PNone"
| "of_opt_dict (Some d) = PDict d"

definition call_generate_cookiecutter_context :: "world \<Rightarrow> pyval list \<Rightarrow> (error + dict) \<times> world" where
  "call_generate_cookiecutter_context w args =
     (if 7 < length args then
        (Inl (TypeError (''generate_cookiecutter_context() takes from 2 to 7 positional arguments but ''
                         @ str_of_nat (length args) @ '' were given'')), w)
      else if length args < 2 then
        (Inl (TypeError ''generate_cookiecutter_context() missing required positional arguments''), w)
      else
        (case args @ drop (length args - 2) [PNone, PBool False, PNone, PBool False, PNone] of
           [PStr template_git_url, PPath cookiecutter_template_dir, a3, PBool default_config, a5,
            PBool no_input, a7] \<Rightarrow>
             (case (opt_path a3, opt_dict a5, opt_path a7) of
                (Some config_file, Some extra_context, Some replay_file) \<Rightarrow>
                  generate_cookiecutter_context w template_git_url cookiecutter_template_dir
                    config_file default_config extra_context no_input replay_file
              | _ \<Rightarrow> (Inl (TypeError ''argument of another type than annotated''), w))
         | _ \<Rightarrow> (Inl (TypeError ''argument of another type than annotated''), w)))"

text \<open>
  Modelled from the spec: \<^verbatim>\<open>utils.cruft.json_dumps\<close>, which is not under the repository's
  sources given here: a stable serialisation of the state record. The model stores the
  record itself as the JSON document of the state file.
\<close>

definition json_dumps :: "dict \<Rightarrow> node" where
  "json_dumps cruft_content = Json (JObj cruft_content)"

fun of_opt_str :: "string option \<Rightarrow> json" where
  "of_opt_str None = JNull"
| "of_opt_str (Some s) = JStr s"

text \<open>
  Lines 59 to 86: rendering, writing the state file, and the handler that turns a
  \<^verbatim>\<open>CookiecutterException\<close> into a \<^verbatim>\<open>CruftError\<close>.
\<close>

definition create_render ::
  "world \<Rightarrow> string \<Rightarrow> string \<Rightarrow> string option \<Rightarrow> dict \<Rightarrow> path \<Rightarrow> bool \<Rightarrow> path \<Rightarrow> string option
     \<Rightarrow> string list option \<Rightarrow> (error + path) \<times> world" where
  "create_render w template_git_url last_commit checkout context cookiecutter_template_dir
       overwrite_if_exists output_dir directory skip =
     (case generate_files w cookiecutter_template_dir context overwrite_if_exists
             (str_of_path output_dir) of
        Inl exc \<Rightarrow> (Inl (CruftError (str_replace ''Error: '' [] exc)), w)
      | Inr generated \<Rightarrow>
          (let project_dir = path_of_str generated;
               cruft_content =
                 [''template'' \<mapsto> JStr template_git_url,
                  ''commit'' \<mapsto> JStr last_commit,
                  ''checkout'' \<mapsto> of_opt_str checkout,
                  ''context'' \<mapsto> JObj [''cookiecutter'' \<mapsto> JObj context],
                  ''directory'' \<mapsto> of_opt_str directory];
               cruft_content' =
                 (case skip of
                    Some (p # ps) \<Rightarrow> cruft_content(''skip'' \<mapsto> JArr (map JStr (p # ps)))
                  | _ \<Rightarrow> cruft_content)
           in (Inr project_dir,
               write_node w (joinpath project_dir (Path False [''.cruft.json'']))
                 (json_dumps cruft_content'))))"

text \<open>
  \<^verbatim>\<open>create\<close>, lines 30 to 86. The decorator \<^verbatim>\<open>@example\<close> only documents the command
  and the message of \<^verbatim>\<open>typer.echo\<close> is not part of the result.
\<close>

definition create ::
  "world \<Rightarrow> string \<Rightarrow> path \<Rightarrow> path option \<Rightarrow> path option \<Rightarrow> bool \<Rightarrow> dict option \<Rightarrow> path option
     \<Rightarrow> bool \<Rightarrow> string option \<Rightarrow> string option \<Rightarrow> bool \<Rightarrow> string list option
     \<Rightarrow> (error + path) \<times> world" where
  "create w template_ref output_dir config_file replay_file default_config extra_context
       extra_context_file no_input directory checkout overwrite_if_exists skip =
     (let template_git_url = resolve_template_url w template_ref;
          state = \<lparr>template_url = template_git_url, checkout_ref = checkout\<rparr>;
          tmp = path_of_str (tmp_dir w)
      in
      case get_cookiecutter_repo w state tmp of
        Inl e \<Rightarrow> (Inl e, w)
      | Inr (r, state') \<Rightarrow>
          (let checkout' = checkout_ref state';
               last_commit = hexsha r;
               cookiecutter_template_dir =
                 (case directory of
                    None \<Rightarrow> tmp
                  | Some d \<Rightarrow> if d = [] then tmp else joinpath tmp (path_of_str d))
           in
           case create_extra_context w extra_context extra_context_file of
             Inl e \<Rightarrow> (Inl e, w)
           | Inr extra_context' \<Rightarrow>
               (case call_generate_cookiecutter_context w
                       [PStr template_git_url, PStr last_commit, PPath cookiecutter_template_dir,
                        of_opt_path config_file, PBool default_config, of_opt_dict extra_context',
                        PBool no_input, of_opt_path replay_file] of
                  (Inl e, w') \<Rightarrow> (Inl e, w')
                | (Inr context, w') \<Rightarrow>
                    create_render w' template_git_url last_commit checkout' context
                      cookiecutter_template_dir overwrite_if_exists output_dir directory skip)))"

section \<open>An example world\<close>

text \<open>
  A cloned template with three version tags, a template directory that passes validation
  and declares \<^verbatim>\<open>project\<close> and \<^verbatim>\<open>_extensions\<close>, and a replay file saved by an earlier
  run. The theorems below are instantiated here. The second world is the first with a
  renderer that fails.
\<close>

definition example_repo :: repo where
  "example_repo =
     \<lparr>refs = [Head ''main'', TagReference ''v1.0.0'', TagReference ''v1.2.0'',
              TagReference ''v1.1.0''],
      hexsha = ''c0ffee'',
      git_checkout = (\<lambda>ref. Inr (''commit-of-'' @ ref))\<rparr>"

definition example_files :: "path \<Rightarrow> node option" where
  "example_files =
     [Path True [''tmp'', ''clone''] \<mapsto> Dir [''cookiecutter.json'', ''{{cookiecutter.project}}''],
      Path True [''tmp'', ''clone'', ''{{cookiecutter.project}}''] \<mapsto> Dir [],
      Path True [''tmp'', ''clone'', ''cookiecutter.json''] \<mapsto>
        Json (JObj [''project'' \<mapsto> JStr ''demo'', ''_extensions'' \<mapsto> JArr []]),
      Path True [''replay'', ''saved.json''] \<mapsto>
        Json (JObj [''cookiecutter'' \<mapsto>
                      JObj [''name'' \<mapsto> JStr ''y'', ''_k'' \<mapsto> JStr ''theirs'']])]"

definition example_world :: world where
  "example_world =
     \<lparr>files = example_files,
      cwd = Path True [''home''],
      tmp_dir = ''/tmp/clone'',
      urlparse = (\<lambda>url. (''https'', ''example.org'', ''/template'')),
      clone_from = (\<lambda>url dir. Inr example_repo),
      get_user_config = (\<lambda>config_file default_config.
         Inr \<lparr>replay_dir = ''/replay'', default_context = Map.empty\<rparr>),
      prompt_for_config = (\<lambda>context no_input. Inr context),
      prompted = [],
      generate_files = (\<lambda>dir context overwrite output_dir. Inr (output_dir @ ''/demo''))\<rparr>"

definition example_world_failing_renderer :: world where
  "example_world_failing_renderer =
     example_world\<lparr>generate_files :=
       (\<lambda>dir context overwrite output_dir. Inl ''Error: unable to render'')\<rparr>"

section \<open>Strings\<close>

lemma startswith_append: "startswith p (p @ s)"
  by (induction p) auto

lemma contains_self_append: "p \<noteq> [] \<Longrightarrow> contains p (p @ s)"
  by (cases p) (auto simp: startswith_append[of "_ # _", simplified])

lemma str_replace_keeps: "old \<noteq> [] \<Longrightarrow> \<not> contains old s \<Longrightarrow> str_replace old [] s = s"
  by (induction s) auto

lemma str_replace_drops_prefix:
  "old \<noteq> [] \<Longrightarrow> str_replace old [] (old @ s) = str_replace old [] s"
proof -
  assume ne: "old \<noteq> []"
  then obtain c cs where old: "old = c # cs" by (cases old) auto
  have "startswith old (c # cs @ s)" using startswith_append[of old s] old by simp
  then show ?thesis using old by simp
qed

lemma split_on_nonempty: "split_on sep s \<noteq> []"
  by (induction s) (auto split: list.splits)

lemma split_on_hd: "set (hd (split_on sep s)) \<subseteq> set s"
  by (induction s) (auto split: list.splits)

lemma str_of_nat_eight:
  "str_of_nat (Suc (Suc (Suc (Suc (Suc (Suc (Suc (Suc 0)))))))) = ''8''"
proof -
  have "str_of_nat 8 = ''8''" by code_simp
  then show ?thesis by (simp add: eval_nat_numeral)
qed

section \<open>The checkout policy\<close>

lemma branch_not_in_latest: "\<not> contains (BRANCH @ rest) LATEST"
  by (simp add: BRANCH_def LATEST_def)

lemma branch_policy: "checkout_policy (BRANCH @ rest) = Branch (str_replace BRANCH [] rest)"
  using contains_self_append[of BRANCH rest] str_replace_drops_prefix[of BRANCH rest]
  by (simp add: checkout_policy_def branch_not_in_latest) (simp add: BRANCH_def)

text \<open>
  C3. The claim: every checkout string with \<^verbatim>\<open>:latest:\<close> somewhere in it takes the
  latest-tag path. The test at line 70 is \<^verbatim>\<open>checkout in LATEST\<close>, the operands the other
  way round than in \<^verbatim>\<open>BRANCH in checkout\<close> at line 89: it holds for the pieces of
  \<^verbatim>\<open>:latest:\<close>, not for the strings that contain it. With the checkout string
  \<^verbatim>\<open>x:latest:\<close> the code takes the explicit path, checks that string out as a reference
  and records it, whatever the tags are; the piece \<^verbatim>\<open>late\<close> takes the latest-tag path.
\<close>

theorem latest_marker_inside_longer_string:
  "checkout_policy ''x:latest:'' = Explicit ''x:latest:''
   \<and> resolve_checkout ''x:latest:'' [''v1.0.0'', ''v1.2.0'', ''v1.1.0''] = Inr ''x:latest:''
   \<and> get_cookiecutter_repo example_world
        \<lparr>template_url = ''https://example.org/template'', checkout_ref = Some ''x:latest:''\<rparr>
        (Path True [''tmp'', ''clone''])
      = Inr (example_repo\<lparr>hexsha := ''commit-of-x:latest:''\<rparr>,
             \<lparr>template_url = ''https://example.org/template'', checkout_ref = Some ''x:latest:''\<rparr>)
   \<and> checkout_policy ''late'' = Latest"
  by (simp add: get_cookiecutter_repo_def resolve_checkout_def checkout_policy_def BRANCH_def
        LATEST_def example_world_def example_repo_def)

text \<open>
  C4, as amended. A checkout string that starts with \<^verbatim>\<open>branch:\<close> takes the branch path,
  and the reference is what \<^verbatim>\<open>checkout.replace("branch:", "")\<close> leaves: the rest of the
  string with every further \<^verbatim>\<open>branch:\<close> removed as well. It is the rest of the string
  when that holds no \<^verbatim>\<open>branch:\<close>.
\<close>

theorem branch_marker_removed_everywhere:
  "checkout_policy (BRANCH @ rest) = Branch (str_replace BRANCH [] rest)
   \<and> resolve_checkout (BRANCH @ rest) names = Inr (str_replace BRANCH [] rest)
   \<and> (\<not> contains BRANCH rest \<longrightarrow> resolve_checkout (BRANCH @ rest) names = Inr rest)"
  using str_replace_keeps[of BRANCH rest]
  by (simp add: resolve_checkout_def branch_policy) (simp add: BRANCH_def)

text \<open>The branch \<^verbatim>\<open>main\<close>, asked for as \<^verbatim>\<open>branch:main\<close>.\<close>

theorem branch_marker_removed_everywhere_witness:
  "\<not> contains BRANCH ''main''
   \<and> checkout_policy (BRANCH @ ''main'') = Branch ''main''
   \<and> resolve_checkout (BRANCH @ ''main'') [''v1.0.0''] = Inr ''main''"
proof -
  have h: "\<not> contains BRANCH ''main''" by (simp add: BRANCH_def)
  have r: "str_replace BRANCH [] ''main'' = ''main''" by (simp add: BRANCH_def)
  from branch_marker_removed_everywhere[of "''main''" "[''v1.0.0'']"] h r
  show ?thesis by simp
qed

text \<open>
  C4 as stated fails: for \<^verbatim>\<open>branch:branch:x\<close> the rest after the prefix is
  \<^verbatim>\<open>branch:x\<close>, and the reference is \<^verbatim>\<open>x\<close>.
\<close>

theorem branch_marker_removed_twice:
  "resolve_checkout (BRANCH @ ''branch:x'') [] = Inr ''x''
   \<and> resolve_checkout (BRANCH @ ''branch:x'') [] \<noteq> Inr ''branch:x''"
  by (simp add: resolve_checkout_def checkout_policy_def BRANCH_def LATEST_def)

section \<open>The latest version tag\<close>








lemma str_zero_version: "str_of_version (Version [0, 0, 0]) = ''0.0.0''"
  by code_simp

lemma parse_no_digit:
  assumes "\<forall>c\<in>set s. \<not> is_digit c"
  shows "parse_version s = None"
proof -
  obtain g gs where sp: "split_on (CHR ''.'') s = g # gs"
    using split_on_nonempty[of "CHR ''.''" s] by (cases "split_on (CHR ''.'') s") auto
  have "set g \<subseteq> set s" using split_on_hd[of "CHR ''.''" s] sp by simp
  then have "g = [] \<or> \<not> list_all is_digit g"
    using assms by (cases g) auto
  then show ?thesis by (auto simp: parse_version_def sp)
qed

lemma latest_no_digit:
  "\<forall>n\<in>set ns. \<forall>c\<in>set n. \<not> is_digit c \<Longrightarrow> foldl latest_step a ns = a"
proof (induction ns arbitrary: a)
  case Nil
  show ?case by simp
next
  case (Cons m ms)
  have "\<forall>c\<in>set (strip_non_numeric m). \<not> is_digit c"
    using Cons.prems by (auto simp: strip_non_numeric_def)
  then have "latest_step a m = a" by (simp add: latest_step_def parse_no_digit)
  then show ?case using Cons by simp
qed



text \<open>
  C6. On the latest-tag path, when no tag name has a digit in it, no tag parses to a
  version, the bound stays \<open>0.0.0\<close> and the reference is \<^verbatim>\<open>HEAD\<close>.
\<close>

theorem no_numeric_tag_resolves_to_HEAD:
  "\<forall>n\<in>set names. \<forall>c\<in>set n. \<not> is_digit c \<Longrightarrow> resolve_latest names = Inr ''HEAD''"
  by (simp add: resolve_latest_def latest_version_def latest_no_digit str_zero_version)

text \<open>The tags \<^verbatim>\<open>release\<close> and \<^verbatim>\<open>nightly\<close>.\<close>

theorem no_numeric_tag_resolves_to_HEAD_witness:
  "list_all (\<lambda>n. list_all (\<lambda>c. \<not> is_digit c) n) [''release'', ''nightly'']
   \<and> resolve_latest [''release'', ''nightly''] = Inr ''HEAD''"
proof -
  have h: "\<forall>n\<in>set [''release'', ''nightly'']. \<forall>c\<in>set n. \<not> is_digit c"
    by (simp add: is_digit_def)
  from no_numeric_tag_resolves_to_HEAD[OF h] show ?thesis
    by (simp add: is_digit_def)
qed

section \<open>The extra-context file\<close>

text \<open>
  C10. When an extra-context file is named and nothing is at that path, loading it raises
  nothing and gives the empty dictionary, and that dictionary is the extra context from
  then on, whatever extra context the caller passed.
\<close>

theorem missing_extra_context_file:
  "\<not> exists w extra_context_file \<Longrightarrow>
     get_extra_context_from_file w extra_context_file = Inr Map.empty
     \<and> create_extra_context w extra_context (Some extra_context_file) = Inr (Some Map.empty)"
  by (simp add: get_extra_context_from_file_def create_extra_context_def)

text \<open>No file \<^verbatim>\<open>extra.json\<close> in the example world, and a caller's \<^verbatim>\<open>{"name": "x"}\<close>.\<close>

theorem missing_extra_context_file_witness:
  "\<not> exists example_world (Path False [''extra.json''])
   \<and> get_extra_context_from_file example_world (Path False [''extra.json'']) = Inr Map.empty
   \<and> create_extra_context example_world (Some [''name'' \<mapsto> JStr ''x''])
        (Some (Path False [''extra.json''])) = Inr (Some Map.empty)"
proof -
  have h: "\<not> exists example_world (Path False [''extra.json''])"
    by (simp add: exists_def node_at_def absolute_def joinpath_def example_world_def
          example_files_def)
  from missing_extra_context_file[OF h, of "Some [''name'' \<mapsto> JStr ''x'']"] h
  show ?thesis by simp
qed

section \<open>The call of the context assembly in \<^verbatim>\<open>create\<close>\<close>

lemma create_fails_at_call:
  "get_cookiecutter_repo w
       \<lparr>template_url = resolve_template_url w template_ref, checkout_ref = checkout\<rparr>
       (path_of_str (tmp_dir w)) = Inr (r, state')
   \<Longrightarrow> create_extra_context w extra_context extra_context_file = Inr extra'
   \<Longrightarrow> create w template_ref output_dir config_file replay_file default_config extra_context
         extra_context_file no_input directory checkout overwrite_if_exists skip
       = (Inl (TypeError ''generate_cookiecutter_context() takes from 2 to 7 positional arguments but 8 were given''), w)"
  by (simp add: create_def call_generate_cookiecutter_context_def Let_def str_of_nat_eight)

lemma create_never_returns:
  "fst (create w template_ref output_dir config_file replay_file default_config extra_context
          extra_context_file no_input directory checkout overwrite_if_exists skip) \<noteq> Inr p"
  by (simp add: create_def call_generate_cookiecutter_context_def Let_def
           split: sum.splits prod.splits)

lemma example_clone_and_checkout:
  "get_cookiecutter_repo example_world
       \<lparr>template_url = resolve_template_url example_world ''https://example.org/template'',
          checkout_ref = Some ''v1.0.0''\<rparr>
       (path_of_str (tmp_dir example_world))
     = Inr (example_repo\<lparr>hexsha := ''commit-of-v1.0.0''\<rparr>,
            \<lparr>template_url = ''https://example.org/template'', checkout_ref = Some ''v1.0.0''\<rparr>)"
  by (simp add: get_cookiecutter_repo_def example_world_def example_repo_def
        resolve_template_url_def resolve_checkout_def checkout_policy_def LATEST_def BRANCH_def)

text \<open>
  C1. The claim: when cloning, checking out and rendering succeed, \<^verbatim>\<open>create\<close> returns the
  project directory and writes \<^verbatim>\<open>.cruft.json\<close> there. The call at lines 48 to 57 passes
  eight positional arguments, \<^verbatim>\<open>last_commit\<close> among them, to
  \<^verbatim>\<open>generate_cookiecutter_context\<close>, which declares seven parameters: in the example
  world, where the clone, the checkout of \<^verbatim>\<open>v1.0.0\<close> and the renderer all succeed,
  \<^verbatim>\<open>create\<close> raises \<^verbatim>\<open>TypeError\<close>, returns no directory and leaves the files as they
  were. \<open>create_fails_at_call\<close> and \<open>create_never_returns\<close> say the same of every world.
\<close>

theorem create_call_raises_TypeError:
  "create example_world ''https://example.org/template'' (Path False [''out'']) None None False
      None None True None (Some ''v1.0.0'') False None
    = (Inl (TypeError ''generate_cookiecutter_context() takes from 2 to 7 positional arguments but 8 were given''),
       example_world)"
  using create_fails_at_call[OF example_clone_and_checkout, of None None None]
  by (simp add: create_extra_context_def)

section \<open>A failure of the renderer\<close>

lemma resolve_latest_error: "resolve_latest names = Inl e \<Longrightarrow> \<exists>m. e = AssertionError m"
  by (auto simp: resolve_latest_def Let_def split: if_splits list.splits)

lemma resolve_checkout_error: "resolve_checkout c names = Inl e \<Longrightarrow> \<exists>m. e = AssertionError m"
  by (auto simp: resolve_checkout_def resolve_latest_error split: policy.splits)

lemma get_cookiecutter_repo_error:
  "get_cookiecutter_repo w state dir = Inl e \<Longrightarrow>
     (\<exists>m. e = AssertionError m) \<or> (\<exists>u m. e = InvalidCookiecutterRepository u m)"
  by (auto simp: get_cookiecutter_repo_def Let_def dest: resolve_checkout_error
           split: sum.splits option.splits)

lemma get_extra_context_error:
  "get_extra_context_from_file w f = Inl e \<Longrightarrow> e \<noteq> CruftError m"
  by (auto simp: get_extra_context_from_file_def
           split: if_splits option.splits node.splits json.splits)

lemma create_extra_context_error:
  "create_extra_context w extra f = Inl e \<Longrightarrow> e \<noteq> CruftError m"
  by (auto simp: create_extra_context_def dest: get_extra_context_error
           split: option.splits sum.splits)

lemma create_never_raises_CruftError:
  "fst (create w template_ref output_dir config_file replay_file default_config extra_context
          extra_context_file no_input directory checkout overwrite_if_exists skip)
     \<noteq> Inl (CruftError m)"
proof -
  let ?state = "\<lparr>template_url = resolve_template_url w template_ref, checkout_ref = checkout\<rparr>"
  show ?thesis
  proof (cases "get_cookiecutter_repo w ?state (path_of_str (tmp_dir w))")
    case (Inl e)
    then have "e \<noteq> CruftError m" using get_cookiecutter_repo_error by fastforce
    then show ?thesis using Inl by (simp add: create_def Let_def)
  next
    case (Inr a)
    obtain r state' where a: "a = (r, state')" by (cases a)
    show ?thesis
    proof (cases "create_extra_context w extra_context extra_context_file")
      case (Inl e)
      then have "e \<noteq> CruftError m" by (rule create_extra_context_error)
      then show ?thesis using Inl Inr a by (simp add: create_def Let_def)
    next
      case (Inr extra')
      from create_fails_at_call[OF \<open>get_cookiecutter_repo w ?state (path_of_str (tmp_dir w)) = Inr a\<close>[unfolded a] Inr]
      show ?thesis by simp
    qed
  qed
qed

lemma failing_renderer_clone_and_checkout:
  "get_cookiecutter_repo example_world_failing_renderer
       \<lparr>template_url = resolve_template_url example_world_failing_renderer
                         ''https://example.org/template'',
          checkout_ref = Some ''v1.0.0''\<rparr>
       (path_of_str (tmp_dir example_world_failing_renderer))
     = Inr (example_repo\<lparr>hexsha := ''commit-of-v1.0.0''\<rparr>,
            \<lparr>template_url = ''https://example.org/template'', checkout_ref = Some ''v1.0.0''\<rparr>)"
  by (simp add: get_cookiecutter_repo_def example_world_failing_renderer_def example_world_def
        example_repo_def resolve_template_url_def resolve_checkout_def checkout_policy_def
        LATEST_def BRANCH_def)

text \<open>
  C9. The claim: when the renderer fails with a text that starts with \<^verbatim>\<open>Error: \<close>,
  \<^verbatim>\<open>create\<close> raises a \<^verbatim>\<open>CruftError\<close> with the text without that prefix. The handler
  at lines 85 and 86 is there for it, and \<^verbatim>\<open>create\<close> never comes to it: the call at
  lines 48 to 57 raises \<^verbatim>\<open>TypeError\<close> before the renderer is called (the defect of C1).
  In the example world whose renderer fails with \<^verbatim>\<open>Error: unable to render\<close>,
  \<^verbatim>\<open>create\<close> raises that \<^verbatim>\<open>TypeError\<close> and no \<^verbatim>\<open>CruftError\<close>;
  \<open>create_never_raises_CruftError\<close> says it of every world.
\<close>

theorem create_never_reaches_renderer_failure:
  "generate_files example_world_failing_renderer (Path True [''tmp'', ''clone'']) Map.empty False
      (str_of_path (Path False [''out''])) = Inl ''Error: unable to render''
   \<and> create example_world_failing_renderer ''https://example.org/template'' (Path False [''out''])
        None None False None None True None (Some ''v1.0.0'') False None
      = (Inl (TypeError ''generate_cookiecutter_context() takes from 2 to 7 positional arguments but 8 were given''),
         example_world_failing_renderer)
   \<and> fst (create example_world_failing_renderer ''https://example.org/template''
             (Path False [''out'']) None None False None None True None (Some ''v1.0.0'') False None)
      \<noteq> Inl (CruftError ''unable to render'')"
  using create_fails_at_call[OF failing_renderer_clone_and_checkout, of None None None]
  by (simp add: create_extra_context_def) (simp add: example_world_failing_renderer_def)

section \<open>Loading a replay file\<close>

lemma join_parent_name: "joinpath (parent p) (name_of p) = p"
  by (cases p) (simp add: joinpath_def parent_def name_of_def)

lemma locate_replay_path:
  "locate_replay w cfg rf = Inr (rdir, rfile, rpath) \<Longrightarrow>
     joinpath rdir rfile = rpath \<and> exists w rpath"
  by (auto simp: locate_replay_def Let_def join_parent_name split: if_splits)

lemma load_replay_path_name:
  "load_replay w dir (PPath p) = Inl (TypeError ''Template name is required to be of type str'')"
  by (simp add: load_replay_def)

lemma load_and_merge_fails:
  "load_and_merge_replay w rdir rfile rpath extra
     = Inl (InvalidCookiecutterReplay (if exists w rpath then joinpath rdir rfile else rpath)
              (if exists w rpath
               then ''Failed to load the replay file. Template name is required to be of type str''
               else ''No replay file found.''))"
  by (simp add: load_and_merge_replay_def load_replay_path_name)

lemma replay_never_loads:
  "fst (generate_cookiecutter_context w url dir cf dc extra ni (Some rf)) \<noteq> Inr final"
  by (auto simp: generate_cookiecutter_context_def Let_def load_and_merge_fails
           split: sum.splits prod.splits)

lemma example_replay_exists: "exists example_world (Path True [''replay'', ''saved.json''])"
  by (simp add: exists_def node_at_def absolute_def joinpath_def example_world_def
        example_files_def)

lemma example_validate:
  "validate_cookiecutter example_world (Path True [''tmp'', ''clone'']) = Inr ()"
  by (simp add: validate_cookiecutter_def glob_cookiecutter_def is_dir_def node_at_def
        absolute_def joinpath_def example_world_def example_files_def)

lemma example_locate:
  "locate_replay example_world cfg (Path True [''replay'', ''saved.json''])
     = Inr (Path True [''replay''], Path False [''saved.json''], Path True [''replay'', ''saved.json''])"
  by (simp add: locate_replay_def example_replay_exists parent_def name_of_def)

lemma example_config:
  "get_user_config example_world config_file default_config
     = Inr \<lparr>replay_dir = ''/replay'', default_context = Map.empty\<rparr>"
  by (simp add: example_world_def)

text \<open>
  C2. The claim: with a replay file and an extra context that is a dictionary, the
  replayed values are merged into the extra context and the caller's value stays for a key
  that both have. Lines 135 and 140 make \<^verbatim>\<open>replay_file\<close> a \<^verbatim>\<open>Path\<close> and line 145 passes
  it as the name to \<^verbatim>\<open>load_replay\<close>, which takes a string: the load raises
  \<^verbatim>\<open>TypeError\<close>, line 147 turns it into \<^verbatim>\<open>InvalidCookiecutterReplay\<close>, and nothing is
  merged. In the example world, with the replay file that holds \<^verbatim>\<open>name = y\<close> and a
  caller's \<^verbatim>\<open>{"name": "x"}\<close>, the assembly raises that error; \<open>replay_never_loads\<close> says
  of every world that no assembly with a replay file returns a context.
\<close>

theorem replay_file_is_never_merged:
  "exists example_world (Path True [''replay'', ''saved.json''])
   \<and> generate_cookiecutter_context example_world ''https://example.org/template''
        (Path True [''tmp'', ''clone'']) None False (Some [''name'' \<mapsto> JStr ''x'']) True
        (Some (Path True [''replay'', ''saved.json'']))
      = (Inl (InvalidCookiecutterReplay (Path True [''replay'', ''saved.json''])
                ''Failed to load the replay file. Template name is required to be of type str''),
         example_world)"
  by (simp add: generate_cookiecutter_context_def example_validate example_config example_locate
        load_and_merge_fails example_replay_exists Let_def joinpath_def)

section \<open>A fresh replay file\<close>

text \<open>
  C7, as amended. When the template directory is valid and the configuration loads, an
  assembly with a fresh replay file, one that exists neither at the path given nor under
  the configured replay directory, raises \<^verbatim>\<open>InvalidCookiecutterReplay\<close> with the text
  \<^verbatim>\<open>No replay file found.\<close> for the path under the replay directory, and leaves the world
  as it was, whatever the extra context and \<^verbatim>\<open>no_input\<close>; so does the assembly after it,
  with no extra context, the same replay file and \<^verbatim>\<open>no_input\<close> set.
\<close>

theorem fresh_replay_file_fails:
  assumes "validate_cookiecutter w dir = Inr ()"
    and "get_user_config w (map_option str_of_path cf) dc = Inr cfg"
    and "\<not> exists w rf"
    and "\<not> exists w (joinpath (path_of_str (replay_dir cfg)) rf)"
  shows "generate_cookiecutter_context w url dir cf dc extra ni (Some rf)
           = (Inl (InvalidCookiecutterReplay (joinpath (path_of_str (replay_dir cfg)) rf)
                     ''No replay file found.''), w)
         \<and> generate_cookiecutter_context w url dir cf dc None True (Some rf)
           = (Inl (InvalidCookiecutterReplay (joinpath (path_of_str (replay_dir cfg)) rf)
                     ''No replay file found.''), w)"
  using assms
  by (simp add: generate_cookiecutter_context_def locate_replay_def Let_def)

lemma example_replay_dir: "path_of_str ''/replay'' = Path True [''replay'']"
  by (simp add: path_of_str_def)

text \<open>
  The example world, which has no \<^verbatim>\<open>new.json\<close> in the working directory or in the replay
  directory, and a caller's \<^verbatim>\<open>{"name": "x"}\<close>.
\<close>

theorem fresh_replay_file_fails_witness:
  "validate_cookiecutter example_world (Path True [''tmp'', ''clone'']) = Inr ()
   \<and> get_user_config example_world (map_option str_of_path None) False
       = Inr \<lparr>replay_dir = ''/replay'', default_context = Map.empty\<rparr>
   \<and> \<not> exists example_world (Path False [''new.json''])
   \<and> \<not> exists example_world (Path True [''replay'', ''new.json''])
   \<and> generate_cookiecutter_context example_world ''https://example.org/template''
        (Path True [''tmp'', ''clone'']) None False (Some [''name'' \<mapsto> JStr ''x'']) False
        (Some (Path False [''new.json'']))
      = (Inl (InvalidCookiecutterReplay (Path True [''replay'', ''new.json''])
                ''No replay file found.''), example_world)
   \<and> generate_cookiecutter_context example_world ''https://example.org/template''
        (Path True [''tmp'', ''clone'']) None False None True (Some (Path False [''new.json'']))
      = (Inl (InvalidCookiecutterReplay (Path True [''replay'', ''new.json''])
                ''No replay file found.''), example_world)"
proof -
  let ?cfg = "\<lparr>replay_dir = ''/replay'', default_context = Map.empty\<rparr>"
  have c: "get_user_config example_world (map_option str_of_path None) False = Inr ?cfg"
    by (rule example_config)
  have n1: "\<not> exists example_world (Path False [''new.json''])"
    by (simp add: exists_def node_at_def absolute_def joinpath_def example_world_def
          example_files_def)
  have n2: "\<not> exists example_world (Path True [''replay'', ''new.json''])"
    by (simp add: exists_def node_at_def absolute_def joinpath_def example_world_def
          example_files_def)
  have j: "joinpath (path_of_str ''/replay'') (Path False [''new.json''])
             = Path True [''replay'', ''new.json'']"
    by (simp add: example_replay_dir joinpath_def)
  have n3: "\<not> exists example_world
                 (joinpath (path_of_str (replay_dir ?cfg)) (Path False [''new.json'']))"
    using n2 by (simp add: j)
  from fresh_replay_file_fails[OF example_validate c n1 n3,
         of "''https://example.org/template''" "Some [''name'' \<mapsto> JStr ''x'']" False]
  show ?thesis using example_validate c n1 n2 by (simp add: j)
qed

text \<open>
  C7 as stated fails: with the fresh replay file \<^verbatim>\<open>fresh.json\<close> the first assembly of the
  claim raises \<^verbatim>\<open>InvalidCookiecutterReplay\<close> and saves nothing.
\<close>

theorem fresh_replay_file_is_an_error:
  "generate_cookiecutter_context example_world ''https://example.org/template''
       (Path True [''tmp'', ''clone'']) None False (Some [''name'' \<mapsto> JStr ''x'']) False
       (Some (Path False [''fresh.json'']))
     = (Inl (InvalidCookiecutterReplay (Path True [''replay'', ''fresh.json''])
               ''No replay file found.''),
        example_world)"
  by (simp add: generate_cookiecutter_context_def example_validate example_config
        locate_replay_def Let_def)
     (simp add: exists_def node_at_def absolute_def example_world_def example_files_def
        joinpath_def path_of_str_def)

section \<open>Engine keys\<close>

lemma gcc_plain_success:
  assumes "generate_cookiecutter_context w url dir cf dc ex ni None = (Inr final, w')"
  obtains cfg where
    "validate_cookiecutter w dir = Inr ()"
    "get_user_config w (map_option str_of_path cf) dc = Inr cfg"
    "build_context w url (joinpath dir (Path False [''cookiecutter.json''])) cfg ex ni None
       = (Inr final, w')"
  using assms
  by (auto simp: generate_cookiecutter_context_def Let_def split: sum.splits prod.splits)

lemma build_context_plain_success:
  assumes "build_context w url cfile cfg ex ni None = (Inr final, w')"
  obtains base answered where
    "generate_context w cfile (default_context cfg) (user_context ex) = Inr base"
    "prompt_for_config w base ni = Inr answered"
    "final = (answered(''_template'' \<mapsto> JStr url)) ++ jinja2_env_vars ex"
    "w' = w\<lparr>prompted := prompted w @ [base]\<rparr>"
proof -
  obtain base where
    g: "generate_context w cfile (default_context cfg) (user_context ex) = Inr base"
    using assms
    by (cases "generate_context w cfile (default_context cfg) (user_context ex)")
       (simp_all add: build_context_def)
  obtain answered where p: "prompt_for_config w base ni = Inr answered"
    using assms g
    by (cases "prompt_for_config w base ni") (simp_all add: build_context_def Let_def)
  from assms g p
  have "final = (answered(''_template'' \<mapsto> JStr url)) ++ jinja2_env_vars ex"
    and "w' = w\<lparr>prompted := prompted w @ [base]\<rparr>"
    by (simp_all add: build_context_def Let_def)
  with g p show ?thesis by (rule that)
qed

lemma env_vars_key:
  "startswith ''_'' key \<Longrightarrow> jinja2_env_vars (Some m) key = m key"
  by (auto simp: jinja2_env_vars_def)

lemma user_context_key:
  "startswith ''_'' key \<Longrightarrow> user_context ex key = None"
  by (auto simp: user_context_def split: option.splits)

lemma user_context_other:
  "\<not> startswith ''_'' key \<Longrightarrow> user_context (Some m) key = m key"
  by (auto simp: user_context_def)

lemma user_context_without_key:
  assumes "startswith ''_'' key"
  shows "user_context (Some (extra(key := None))) = user_context (Some extra)"
proof (rule ext)
  fix k
  show "user_context (Some (extra(key := None))) k = user_context (Some extra) k"
  proof (cases "startswith ''_'' k")
    case True
    then show ?thesis by (simp add: user_context_key)
  next
    case False
    then have "k \<noteq> key" using assms by auto
    then have "(extra(key := None)) k = extra k" by simp
    moreover have "user_context (Some (extra(key := None))) k = (extra(key := None)) k"
      using False by (rule user_context_other)
    moreover have "user_context (Some extra) k = extra k"
      using False by (rule user_context_other)
    ultimately show ?thesis by simp
  qed
qed

text \<open>
  C8, as amended. In every assembly that returns a context, a key that starts with an
  underscore and is supplied in the extra context is in the final context with the
  supplied value, before the injected \<^verbatim>\<open>_template\<close> too; and the supplied entry is not
  passed on to prompting: the assembly passes one context to prompting, the one that
  \<^verbatim>\<open>generate_context\<close> returns for the template's context file, the configured defaults
  and the user variables, and those user variables have no entry for the key and are the
  same as when the entry is not supplied.
\<close>

theorem engine_key_kept:
  assumes ok: "generate_cookiecutter_context w url dir cf dc (Some extra) ni rf = (Inr final, w')"
    and us: "startswith ''_'' key"
    and sup: "extra key = Some v"
  shows "final key = Some v
     \<and> (\<exists>cfg base.
          get_user_config w (map_option str_of_path cf) dc = Inr cfg
          \<and> generate_context w (joinpath dir (Path False [''cookiecutter.json'']))
                (default_context cfg) (user_context (Some extra)) = Inr base
          \<and> prompted w' = prompted w @ [base])
     \<and> user_context (Some extra) key = None
     \<and> user_context (Some extra) = user_context (Some (extra(key := None)))"
proof -
  have rf: "rf = None"
  proof (cases rf)
    case None
    then show ?thesis .
  next
    case (Some f)
    with ok replay_never_loads[of w url dir cf dc "Some extra" ni f final]
    show ?thesis by simp
  qed
  with ok obtain cfg where
    c: "get_user_config w (map_option str_of_path cf) dc = Inr cfg"
    and b: "build_context w url (joinpath dir (Path False [''cookiecutter.json''])) cfg (Some extra)
              ni None = (Inr final, w')"
    by (auto elim: gcc_plain_success)
  from b obtain base answered where
    g: "generate_context w (joinpath dir (Path False [''cookiecutter.json'']))
          (default_context cfg) (user_context (Some extra)) = Inr base"
    and f: "final = (answered(''_template'' \<mapsto> JStr url)) ++ jinja2_env_vars (Some extra)"
    and l: "w' = w\<lparr>prompted := prompted w @ [base]\<rparr>"
    by (rule build_context_plain_success)
  have k: "final key = Some v" using f us sup by (simp add: map_add_def env_vars_key)
  have p: "prompted w' = prompted w @ [base]" using l by simp
  have u: "user_context (Some extra) key = None" using us by (rule user_context_key)
  have e: "user_context (Some extra) = user_context (Some (extra(key := None)))"
    using user_context_without_key[OF us, of extra] by simp
  from k c g p u e show ?thesis by blast
qed

lemma example_plain_assembly:
  "generate_cookiecutter_context example_world url (Path True [''tmp'', ''clone'']) None False
       extra ni None
     = build_context example_world url (Path True [''tmp'', ''clone'', ''cookiecutter.json''])
         \<lparr>replay_dir = ''/replay'', default_context = Map.empty\<rparr> extra ni None"
  by (simp add: generate_cookiecutter_context_def example_validate example_config Let_def
        joinpath_def)

lemma example_generate_context:
  "generate_context example_world (Path True [''tmp'', ''clone'', ''cookiecutter.json''])
       defaults user
     = Inr ([''project'' \<mapsto> JStr ''demo'', ''_extensions'' \<mapsto> JArr []] ++ defaults ++ user)"
  by (simp add: generate_context_def node_at_def absolute_def joinpath_def example_world_def
        example_files_def)

lemma example_build:
  "build_context example_world url (Path True [''tmp'', ''clone'', ''cookiecutter.json''])
       cfg extra ni None
     = (Inr ((([''project'' \<mapsto> JStr ''demo'', ''_extensions'' \<mapsto> JArr []]
                ++ default_context cfg ++ user_context extra)(''_template'' \<mapsto> JStr url))
              ++ jinja2_env_vars extra),
        example_world\<lparr>prompted :=
          [[''project'' \<mapsto> JStr ''demo'', ''_extensions'' \<mapsto> JArr []]
             ++ default_context cfg ++ user_context extra]\<rparr>)"
  by (simp add: build_context_def example_generate_context Let_def del: map_add_assoc)
     (simp add: example_world_def)

text \<open>
  The example world and a caller's \<^verbatim>\<open>{"_template": "mine"}\<close>: the final context holds
  \<^verbatim>\<open>mine\<close>, not the template reference.
\<close>

theorem engine_key_kept_witness:
  "startswith ''_'' ''_template''
   \<and> [''_template'' \<mapsto> JStr ''mine''] ''_template'' = Some (JStr ''mine'')
   \<and> \<not> isl (fst (generate_cookiecutter_context example_world ''https://example.org/template''
                  (Path True [''tmp'', ''clone'']) None False
                  (Some [''_template'' \<mapsto> JStr ''mine'']) True None))
   \<and> projr (fst (generate_cookiecutter_context example_world ''https://example.org/template''
                  (Path True [''tmp'', ''clone'']) None False
                  (Some [''_template'' \<mapsto> JStr ''mine'']) True None)) ''_template''
       = Some (JStr ''mine'')
   \<and> user_context (Some [''_template'' \<mapsto> JStr ''mine'']) ''_template'' = None"
proof -
  let ?run = "generate_cookiecutter_context example_world ''https://example.org/template''
                  (Path True [''tmp'', ''clone'']) None False
                  (Some [''_template'' \<mapsto> JStr ''mine'']) True None"
  have ok: "\<not> isl (fst ?run)" by (simp add: example_plain_assembly example_build)
  then have eq: "?run = (Inr (projr (fst ?run)), snd ?run)"
    by (cases "fst ?run") (auto simp: prod_eq_iff)
  have us: "startswith ''_'' ''_template''" by simp
  have sup: "[''_template'' \<mapsto> JStr ''mine''] ''_template'' = Some (JStr ''mine'')" by simp
  have k: "projr (fst ?run) ''_template'' = Some (JStr ''mine'')"
    using engine_key_kept[OF eq us sup] by blast
  have u: "user_context (Some [''_template'' \<mapsto> JStr ''mine'']) ''_template'' = None"
    using us by (rule user_context_key)
  from us sup ok k u show ?thesis by blast
qed

text \<open>
  C8 as stated fails. The template of the example world declares \<^verbatim>\<open>_extensions\<close> in its
  context file and the caller supplies \<^verbatim>\<open>_extensions\<close>: the assembly returns, and the
  context that it passes to prompting has the key, with the template's value.
\<close>

theorem engine_key_in_prompted_context:
  "\<not> isl (fst (generate_cookiecutter_context example_world ''https://example.org/template''
                  (Path True [''tmp'', ''clone'']) None False
                  (Some [''_extensions'' \<mapsto> JArr [JStr ''jinja2_time.TimeExtension'']]) True None))
   \<and> map (\<lambda>base. base ''_extensions'')
        (prompted (snd (generate_cookiecutter_context example_world ''https://example.org/template''
                  (Path True [''tmp'', ''clone'']) None False
                  (Some [''_extensions'' \<mapsto> JArr [JStr ''jinja2_time.TimeExtension'']]) True None)))
       = [Some (JArr [])]"
  by (simp add: example_plain_assembly example_build user_context_key map_add_def)

end
